theory Spec2Isabelle
  imports Main "HOL-Library.Sublist"
begin

section \<open>JavaScript values\<close>

text \<open>
  The gateway is JavaScript. JSON values are a datatype; the value \<open>undefined\<close> is
  \<open>None\<close> of \<open>json option\<close>. Numbers are integers here: the handlers only test
  them for truthiness. An object is the list of its fields, each key once.
\<close>

datatype json =
    JNull
  | JBool bool
  | JNum int
  | JStr string
  | JArr "json list"
  | JObj "(string \<times> json) list"

fun truthy :: "json \<Rightarrow> bool" where
  "truthy JNull = False"
| "truthy (JBool b) = b"
| "truthy (JNum n) = (n \<noteq> 0)"
| "truthy (JStr s) = (s \<noteq> [])"
| "truthy (JArr xs) = True"
| "truthy (JObj kvs) = True"

fun truthy_opt :: "json option \<Rightarrow> bool" where
  "truthy_opt None = False"
| "truthy_opt (Some v) = truthy v"

text \<open>\<open>a || b\<close>: the left operand when it is truthy, the right one otherwise.\<close>

definition js_or :: "json option \<Rightarrow> json option \<Rightarrow> json option" where
  "js_or a b = (if truthy_opt a then a else b)"

text \<open>
  An object literal \<open>{k1: e1, ...}\<close> as \<open>res.json\<close> and axios serialise it: a field whose
  value is \<open>undefined\<close> is left out.
\<close>

fun obj_fields :: "(string \<times> json option) list \<Rightarrow> (string \<times> json) list" where
  "obj_fields [] = []"
| "obj_fields ((k, None) # kvs) = obj_fields kvs"
| "obj_fields ((k, Some v) # kvs) = (k, v) # obj_fields kvs"

definition obj :: "(string \<times> json option) list \<Rightarrow> json" where
  "obj kvs = JObj (obj_fields kvs)"

text \<open>
  Errors as the handlers read them: \<open>err.code\<close>, \<open>err.response?.data\<close> (absent when the
  upstream sent no response, or sent one without a body) and \<open>err.message\<close>.
\<close>

record js_error =
  err_code :: "string option"
  response_data :: "json option"
  err_message :: string

definition type_error :: "string \<Rightarrow> js_error" where
  "type_error m = \<lparr>err_code = None, response_data = None, err_message = m\<rparr>"

text \<open>
  \<open>v.name\<close> for one of the field names the handlers read (\<open>session_id\<close>, \<open>message\<close>,
  \<open>answer\<close>, \<open>comparison\<close>, \<open>doc_id\<close>): a TypeError on \<open>null\<close>, the field of an object,
  \<open>undefined\<close> on every other value.
\<close>

fun get_prop :: "json \<Rightarrow> string \<Rightarrow> js_error + json option" where
  "get_prop JNull k =
     Inl (type_error (''Cannot read properties of null (reading '' @ k @ '')''))"
| "get_prop (JObj kvs) k = Inr (map_of kvs k)"
| "get_prop v k = Inr None"

section \<open>The world a request handler acts on\<close>

datatype payload =
    Json json
  | Multipart "(string \<times> string) list"
    \<comment> \<open>form fields: the field name and the path of the file stream appended under it\<close>

record upstream_call =
  url :: string
  payload_of :: payload
  timeout_ms :: "nat option"

datatype axios_result = Resolved json | Rejected js_error

record reply =
  status :: nat
  headers :: "(string \<times> string) list"
  body :: json

datatype level = Error | Warn | Info

record log_entry =
  log_level :: level
  log_text :: string
  log_detail :: "json option"

record chat_entry =
  role :: string
  content :: "json option"

record session =
  currentSessionId :: "json option"
  chatHistory :: "chat_entry list option"

text \<open>
  \<open>session\<close> is \<open>req.session\<close>, \<open>disk\<close> the set of absolute paths of the files that exist,
  \<open>streams\<close> the open read streams, \<open>sent\<close> what \<open>res.json\<close> has written, \<open>calls\<close> the
  requests made with axios, \<open>logs\<close> the console and \<open>uncaught\<close> an exception that leaves
  the handler.
\<close>

record world =
  session :: "session option"
  disk :: "string set"
  streams :: "string set"
  sent :: "reply list"
  calls :: "upstream_call list"
  logs :: "log_entry list"
  uncaught :: "js_error option"

definition begin_request :: "session option \<Rightarrow> string set \<Rightarrow> world" where
  "begin_request s d =
     \<lparr>session = s, disk = d, streams = {}, sent = [], calls = [], logs = [], uncaught = None\<rparr>"

definition headers_sent :: js_error where
  "headers_sent =
     \<lparr>err_code = Some ''ERR_HTTP_HEADERS_SENT'', response_data = None,
      err_message = ''Cannot set headers after they are sent to the client''\<rparr>"

text \<open>
  \<open>res.status(n).json(b)\<close>. A second write to a response that has been sent throws and
  is recorded as uncaught; no handler below writes twice.
\<close>

definition res_json :: "nat \<Rightarrow> json \<Rightarrow> world \<Rightarrow> world" where
  "res_json n b w =
     (if sent w = [] then w\<lparr>sent := [\<lparr>status = n, headers = [], body = b\<rparr>]\<rparr>
      else w\<lparr>uncaught := Some headers_sent\<rparr>)"

definition console_error :: "string \<Rightarrow> json option \<Rightarrow> world \<Rightarrow> world" where
  "console_error t d w =
     w\<lparr>logs := logs w @ [\<lparr>log_level = Error, log_text = t, log_detail = d\<rparr>]\<rparr>"

definition console_warn :: "string \<Rightarrow> world \<Rightarrow> world" where
  "console_warn t w =
     w\<lparr>logs := logs w @ [\<lparr>log_level = Warn, log_text = t, log_detail = None\<rparr>]\<rparr>"

definition console_log :: "string \<Rightarrow> world \<Rightarrow> world" where
  "console_log t w =
     w\<lparr>logs := logs w @ [\<lparr>log_level = Info, log_text = t, log_detail = None\<rparr>]\<rparr>"

text \<open>
  What lies outside the gateway is a parameter: the upstream RAG service answers each call
  (\<open>rag\<close>), \<open>path.resolve\<close> and \<open>path.join(__dirname, _)\<close> are Node's, \<open>stream_fault\<close> says
  for which path \<open>fs.createReadStream\<close> throws and \<open>unlink_fault\<close> for which path deleting
  fails although the file exists.
\<close>

record env =
  RAG_URL :: string
  UPLOAD_DIR :: string
  resolve :: "string \<Rightarrow> string"
  join_dirname :: "string \<Rightarrow> string"
  sep :: string
  rag :: "upstream_call \<Rightarrow> axios_result"
  stream_fault :: "string \<Rightarrow> js_error option"
  unlink_fault :: "string \<Rightarrow> js_error option"

definition axios_post :: "env \<Rightarrow> upstream_call \<Rightarrow> world \<Rightarrow> axios_result \<times> world" where
  "axios_post e c w = (rag e c, w\<lparr>calls := calls w @ [c]\<rparr>)"

definition enoent :: "string \<Rightarrow> js_error" where
  "enoent p =
     \<lparr>err_code = Some ''ENOENT'', response_data = None,
      err_message = ''ENOENT: no such file or directory, unlink '' @ p\<rparr>"

text \<open>
  \<open>fs.unlink(p, cb)\<close>: the file is removed and \<open>cb\<close> gets no error; or the file is missing
  and \<open>cb\<close> gets ENOENT; or the deletion fails and the file stays. The callback runs after
  the handler has returned; the world returned is the one after it.
\<close>

definition fs_unlink ::
  "env \<Rightarrow> string \<Rightarrow> (js_error option \<Rightarrow> world \<Rightarrow> world) \<Rightarrow> world \<Rightarrow> world" where
  "fs_unlink e p cb w =
     (case unlink_fault e p of
        Some err \<Rightarrow> cb (Some err) w
      | None \<Rightarrow>
          if p \<in> disk w then cb None (w\<lparr>disk := disk w - {p}\<rparr>)
          else cb (Some (enoent p)) w)"

definition error_body :: "string \<Rightarrow> json" where
  "error_body m = obj [(''error'', Some (JStr m))]"

definition caught_detail :: "js_error \<Rightarrow> json option" where
  \<comment> \<open>\<open>err.response?.data || err.message\<close>\<close>
  "caught_detail err = js_or (response_data err) (Some (JStr (err_message err)))"

section \<open>The rate-limited gateway\<close>

definition UPLOAD_TIMEOUT_MS :: nat where "UPLOAD_TIMEOUT_MS = 180000"
definition ASK_TIMEOUT_MS :: nat where "ASK_TIMEOUT_MS = 180000"
definition SUMMARIZE_TIMEOUT_MS :: nat where "SUMMARIZE_TIMEOUT_MS = 180000"
definition COMPARE_TIMEOUT_MS :: nat where "COMPARE_TIMEOUT_MS = 180000"

record multer_file =
  file_path :: string
  originalname :: string

subsection \<open>POST /upload\<close>

text \<open>The statements after the upstream call has resolved with \<open>response.data = d\<close>.\<close>

definition bind_session_id :: "json \<Rightarrow> world \<Rightarrow> js_error + world" where
  \<comment> \<open>\<open>if (req.session) { ... }\<close>\<close>
  "bind_session_id d w =
     (case session w of
        None \<Rightarrow> Inr w
      | Some s \<Rightarrow>
          (case get_prop d ''session_id'' of
             Inl err \<Rightarrow> Inl err
           | Inr sid \<Rightarrow>
               Inr (w\<lparr>session := Some (s\<lparr>currentSessionId := sid, chatHistory := Some []\<rparr>)\<rparr>)))"

definition upload_reply :: "json \<Rightarrow> world \<Rightarrow> js_error + world" where
  "upload_reply d w =
     (case get_prop d ''message'' of
        Inl err \<Rightarrow> Inl err
      | Inr m \<Rightarrow>
          (case get_prop d ''session_id'' of
             Inl err \<Rightarrow> Inl err
           | Inr sid \<Rightarrow> Inr (res_json 200 (obj [(''message'', m), (''session_id'', sid)]) w)))"

definition upload_request :: "env \<Rightarrow> string \<Rightarrow> upstream_call" where
  "upload_request e filePath =
     \<lparr>url = RAG_URL e @ ''/upload'', payload_of = Multipart [(''file'', filePath)],
      timeout_ms = Some UPLOAD_TIMEOUT_MS\<rparr>"

text \<open>
  The \<open>try\<close> block. It returns the stream it opened (if it got that far) and the exception
  it ended with (if any).
\<close>

definition upload_try :: "env \<Rightarrow> string \<Rightarrow> world \<Rightarrow> string option \<times> js_error option \<times> world" where
  "upload_try e filePath w =
     (case stream_fault e filePath of
        Some err \<Rightarrow> (None, Some err, w)
      | None \<Rightarrow>
          (case axios_post e (upload_request e filePath)
                  (w\<lparr>streams := insert filePath (streams w)\<rparr>) of
             (Rejected err, w2) \<Rightarrow> (Some filePath, Some err, w2)
           | (Resolved d, w2) \<Rightarrow>
               (case bind_session_id d w2 of
                  Inl err \<Rightarrow> (Some filePath, Some err, w2)
                | Inr w3 \<Rightarrow>
                    (case upload_reply d w3 of
                       Inl err \<Rightarrow> (Some filePath, Some err, w3)
                     | Inr w4 \<Rightarrow> (Some filePath, None, w4)))))"

definition upload_catch :: "js_error \<Rightarrow> world \<Rightarrow> world" where
  "upload_catch err w =
     res_json 500 (error_body ''Failed to process file. Please try again.'')
       (console_error ''[/upload] File processing failed:'' (caught_detail err) w)"

definition upload_unlink_cb :: "js_error option \<Rightarrow> world \<Rightarrow> world" where
  "upload_unlink_cb unlinkErr w =
     (case unlinkErr of
        None \<Rightarrow> w
      | Some err \<Rightarrow>
          if err_code err \<noteq> Some ''ENOENT''
          then console_warn (''[/upload] Failed to delete file: '' @ err_message err) w
          else w)"

definition upload_finally :: "env \<Rightarrow> string \<Rightarrow> string option \<Rightarrow> world \<Rightarrow> world" where
  "upload_finally e filePath fileStream w =
     fs_unlink e filePath upload_unlink_cb
       (case fileStream of
          None \<Rightarrow> w
        | Some p \<Rightarrow> w\<lparr>streams := streams w - {p}\<rparr>)"

definition upload_handler :: "env \<Rightarrow> multer_file option \<Rightarrow> world \<Rightarrow> world" where
  "upload_handler e file w =
     (case file of
        None \<Rightarrow> res_json 400 (error_body ''No file uploaded.'') w
      | Some f \<Rightarrow>
          if file_path f = [] then res_json 400 (error_body ''No file uploaded.'') w
          else
            let filePath = resolve e (file_path f);
                uploadDirResolved = resolve e (UPLOAD_DIR e)
            in if \<not> prefix (uploadDirResolved @ sep e) filePath \<and> filePath \<noteq> uploadDirResolved
               then res_json 400 (error_body ''Invalid file path.'')
                      (console_error ''[/upload] Path traversal attempt detected:''
                         (Some (JStr filePath)) w)
               else
                 (case upload_try e filePath w of
                    (fileStream, None, w1) \<Rightarrow> upload_finally e filePath fileStream w1
                  | (fileStream, Some err, w1) \<Rightarrow>
                      upload_finally e filePath fileStream (upload_catch err w1)))"

subsection \<open>POST /ask, /summarize, /compare\<close>

text \<open>
  The request body, at the types the handlers document (\<open>@param {string} question\<close>,
  \<open>@param {Array<string>} session_ids\<close>); a field that is missing is \<open>None\<close>.
\<close>

record query_body =
  question :: "string option"
  session_ids :: "string list option"

definition ids_json :: "string list \<Rightarrow> json" where
  "ids_json ids = JArr (map JStr ids)"

definition body_json :: "query_body \<Rightarrow> json" where
  \<comment> \<open>\<open>req.body\<close> as a whole\<close>
  "body_json b =
     obj [(''question'', map_option JStr (question b)),
          (''session_ids'', map_option ids_json (session_ids b))]"

definition no_question :: "string option \<Rightarrow> bool" where
  \<comment> \<open>\<open>!question\<close>\<close>
  "no_question q = (case q of None \<Rightarrow> True | Some s \<Rightarrow> s = [])"

definition no_ids :: "string list option \<Rightarrow> bool" where
  \<comment> \<open>\<open>!session_ids || session_ids.length === 0\<close>\<close>
  "no_ids i = (case i of None \<Rightarrow> True | Some ids \<Rightarrow> length ids = 0)"

definition fewer_than_two :: "string list option \<Rightarrow> bool" where
  \<comment> \<open>\<open>!session_ids || session_ids.length < 2\<close>\<close>
  "fewer_than_two i = (case i of None \<Rightarrow> True | Some ids \<Rightarrow> length ids < 2)"

definition ask_request :: "env \<Rightarrow> query_body \<Rightarrow> upstream_call" where
  "ask_request e b =
     \<lparr>url = RAG_URL e @ ''/ask'', payload_of = Json (body_json b),
      timeout_ms = Some ASK_TIMEOUT_MS\<rparr>"

definition ids_request :: "string \<Rightarrow> nat \<Rightarrow> query_body \<Rightarrow> upstream_call" where
  \<comment> \<open>\<open>axios.post(u, { session_ids }, { timeout: t })\<close>\<close>
  "ids_request u t b =
     \<lparr>url = u, payload_of = Json (obj [(''session_ids'', map_option ids_json (session_ids b))]),
      timeout_ms = Some t\<rparr>"

definition ask_handler :: "env \<Rightarrow> query_body \<Rightarrow> world \<Rightarrow> world" where
  "ask_handler e b w =
     (if no_question (question b) then res_json 400 (error_body ''Question is required.'') w
      else if no_ids (session_ids b)
      then res_json 400 (error_body ''At least one document (session_id) is required.'') w
      else
        (case axios_post e (ask_request e b) w of
           (Resolved d, w1) \<Rightarrow> res_json 200 d w1
         | (Rejected err, w1) \<Rightarrow>
             res_json 500 (error_body ''Failed to process question. Please try again.'')
               (console_error ''[/ask] Question processing failed:'' (caught_detail err) w1)))"

definition summarize_handler :: "env \<Rightarrow> query_body \<Rightarrow> world \<Rightarrow> world" where
  "summarize_handler e b w =
     (if no_ids (session_ids b)
      then res_json 400 (error_body ''At least one document (session_id) is required.'') w
      else
        (case axios_post e (ids_request (RAG_URL e @ ''/summarize'') SUMMARIZE_TIMEOUT_MS b) w of
           (Resolved d, w1) \<Rightarrow> res_json 200 d w1
         | (Rejected err, w1) \<Rightarrow>
             res_json 500 (error_body ''Failed to summarize documents. Please try again.'')
               (console_error ''[/summarize] Summarization failed:'' (caught_detail err) w1)))"

definition compare_handler :: "env \<Rightarrow> query_body \<Rightarrow> world \<Rightarrow> world" where
  "compare_handler e b w =
     (if fewer_than_two (session_ids b)
      then res_json 400 (error_body ''At least 2 documents are required for comparison.'') w
      else
        (case axios_post e (ids_request (RAG_URL e @ ''/compare'') COMPARE_TIMEOUT_MS b) w of
           (Resolved d, w1) \<Rightarrow> res_json 200 d w1
         | (Rejected err, w1) \<Rightarrow>
             res_json 500 (error_body ''Failed to compare documents. Please try again.'')
               (console_error ''[/compare] Comparison failed:'' (caught_detail err) w1)))"

section \<open>The gateway with session chat history\<close>

text \<open>
  The second copy of the gateway is a merge of two revisions, and its \<open>/ask\<close> handler
  (lines 614-658) holds the \<open>try\<close> block of both: the statement of the rate-limited
  revision, \<open>const response = await axios.post(RAG_URL/ask, ...)\<close> (lines 625-629), and
  after it the statements of the session-history revision (lines 630-654), which declare
  \<open>response\<close> again (line 642). Two declarations of one constant in one block is a
  syntax error, so the block has no behaviour of its own. It is modelled under every way
  of reading the two declarations:
  \<^item> \<open>TwoBindings\<close>: both stand, as two bindings; the statements run in the order in
    which they are written.
  \<^item> \<open>SecondAssigns\<close>: line 642 without its \<open>const\<close>, an assignment to the constant of
    line 625: the call is made and awaited, then the assignment throws a TypeError.
  \<^item> \<open>FirstAssigns\<close>: line 625 without its \<open>const\<close>, an assignment to the constant that
    line 642 declares later in the block: the call is made and awaited, then the
    assignment throws a ReferenceError.
  \<^item> \<open>HistoryOnly\<close>: the session-history revision alone, without lines 625-629.

  The \<open>res.json\<close> of line 659, after the \<open>catch\<close>, is the statement of \<open>/clear-history\<close>
  (line 667) left behind by the merge and is not part of the handler modelled here.
\<close>

datatype reading = TwoBindings | SecondAssigns | FirstAssigns | HistoryOnly








definition history_of :: "world \<Rightarrow> chat_entry list" where
  "history_of w =
     (case session w of
        None \<Rightarrow> []
      | Some s \<Rightarrow> (case chatHistory s of None \<Rightarrow> [] | Some h \<Rightarrow> h))"






subsection \<open>POST /clear-history\<close>

definition clear_history_handler :: "world \<Rightarrow> world" where
  "clear_history_handler w =
     res_json 200 (obj [(''message'', Some (JStr ''History cleared''))])
       (case session w of
          None \<Rightarrow> w
        | Some s \<Rightarrow> w\<lparr>session := Some (s\<lparr>chatHistory := Some []\<rparr>)\<rparr>)"

text \<open>
  Modelled from the spec: the session middleware (express-session, a dependency whose
  source is not in the repository). Section 4.4 describes it, and the gateway configures
  it so: a server-side store keyed by the session cookie, a session created on the first
  request of a cookie (\<open>saveUninitialized: true\<close>), loaded into \<open>req.session\<close> before the
  handler and saved after it.
\<close>

type_synonym session_store = "string \<rightharpoonup> session"

definition new_session :: session where
  "new_session = \<lparr>currentSessionId = None, chatHistory = None\<rparr>"

definition load_session :: "session_store \<Rightarrow> string \<Rightarrow> session" where
  "load_session st sid = (case st sid of None \<Rightarrow> new_session | Some s \<Rightarrow> s)"

definition with_session ::
  "session_store \<Rightarrow> string \<Rightarrow> string set \<Rightarrow> (world \<Rightarrow> world) \<Rightarrow> session_store \<times> world" where
  "with_session st sid d h =
     (let w = h (begin_request (Some (load_session st sid)) d)
      in (case session w of None \<Rightarrow> st | Some s \<Rightarrow> st(sid \<mapsto> s), w))"

definition clear_history_route ::
  "session_store \<Rightarrow> string \<Rightarrow> string set \<Rightarrow> session_store \<times> world" where
  "clear_history_route st sid d = with_session st sid d clear_history_handler"

definition upload_route ::
  "env \<Rightarrow> multer_file option \<Rightarrow> session_store \<Rightarrow> string \<Rightarrow> string set \<Rightarrow> session_store \<times> world" where
  \<comment> \<open>the session middleware in front of the upload handler of the rate-limited gateway\<close>
  "upload_route e file st sid d = with_session st sid d (upload_handler e file)"

subsection \<open>The older upload handler's catch branch\<close>

text \<open>
  The merged copy also keeps the \<open>catch\<close> branch of an older upload handler. \<open>filePath\<close> is
  the handler's variable (\<open>null\<close> until the path is built), \<open>err\<close> the exception caught.
\<close>

definition unlinkSync_cleanup :: "env \<Rightarrow> string \<Rightarrow> world \<Rightarrow> world" where
  "unlinkSync_cleanup e p w =
     (case unlink_fault e p of
        Some cleanupErr \<Rightarrow>
          console_error (''Failed to cleanup file: '' @ err_message cleanupErr) None w
      | None \<Rightarrow> console_log (''Cleaned up file after error: '' @ p) (w\<lparr>disk := disk w - {p}\<rparr>))"

definition legacy_upload_catch :: "env \<Rightarrow> string option \<Rightarrow> js_error \<Rightarrow> world \<Rightarrow> world" where
  "legacy_upload_catch e filePath err w =
     (let w1 = (case filePath of
                  None \<Rightarrow> w
                | Some p \<Rightarrow> if p \<noteq> [] \<and> p \<in> disk w then unlinkSync_cleanup e p w else w)
      in if err_code err = Some ''ECONNREFUSED''
         then res_json 503
                (obj [(''error'', Some (JStr ''RAG service unavailable'')),
                      (''details'',
                       Some (JStr ''Please ensure the Python service is running on port 5000''))])
                (console_error ''RAG service not available'' None w1)
         else if err_code err = Some ''LIMIT_FILE_SIZE''
         then res_json 413
                (obj [(''error'', Some (JStr ''File too large'')),
                      (''details'', Some (JStr ''Maximum file size is 10MB''))]) w1
         else res_json 500
                (obj [(''error'', Some (JStr ''PDF processing failed'')),
                      (''details'', caught_detail err)])
                (console_error ''Upload processing failed:'' (caught_detail err) w1))"

section \<open>server.js\<close>

text \<open>
  The gateway of \<open>server.js\<close> has no session, no limiter and no validation. A handler
  without \<open>try\<close> leaves a rejected upstream call uncaught and sends nothing.
\<close>

definition server_upload :: "env \<Rightarrow> multer_file option \<Rightarrow> world \<Rightarrow> world" where
  "server_upload e file w =
     (case file of
        None \<Rightarrow> res_json 500 (error_body ''Upload failed'') w
      | Some f \<Rightarrow>
          (case axios_post e
                  \<lparr>url = RAG_URL e @ ''/process-pdf'',
                   payload_of = Json (obj [(''filePath'', Some (JStr (join_dirname e (file_path f))))]),
                   timeout_ms = None\<rparr> w of
             (Rejected err, w1) \<Rightarrow> res_json 500 (error_body ''Upload failed'') w1
           | (Resolved d, w1) \<Rightarrow>
               (case get_prop d ''doc_id'' of
                  Inl err \<Rightarrow> res_json 500 (error_body ''Upload failed'') w1
                | Inr v \<Rightarrow> res_json 200 (obj [(''doc_id'', v)]) w1)))"

definition server_ask :: "env \<Rightarrow> query_body \<Rightarrow> world \<Rightarrow> world" where
  "server_ask e b w =
     (case axios_post e
             \<lparr>url = RAG_URL e @ ''/ask'', payload_of = Json (body_json b), timeout_ms = None\<rparr> w of
        (Rejected err, w1) \<Rightarrow> w1\<lparr>uncaught := Some err\<rparr>
      | (Resolved d, w1) \<Rightarrow> res_json 200 d w1)"

definition server_compare :: "env \<Rightarrow> query_body \<Rightarrow> world \<Rightarrow> world" where
  "server_compare e b w =
     (case axios_post e
             \<lparr>url = RAG_URL e @ ''/compare'', payload_of = Json (body_json b),
              timeout_ms = None\<rparr> w of
        (Rejected err, w1) \<Rightarrow>
          res_json 500 (error_body ''Error comparing documents'')
            (console_error [] (caught_detail err) w1)
      | (Resolved d, w1) \<Rightarrow>
          (case get_prop d ''comparison'' of
             Inl err \<Rightarrow>
               res_json 500 (error_body ''Error comparing documents'')
                 (console_error [] (caught_detail err) w1)
           | Inr c \<Rightarrow> res_json 200 (obj [(''comparison'', c)]) w1))"

section \<open>The rate limiter module\<close>

definition digit_char :: "nat \<Rightarrow> char" where
  \<comment> \<open>used below ten only\<close>
  "digit_char d = ''0123456789'' ! d"

fun string_of_nat :: "nat \<Rightarrow> string" where
  "string_of_nat n =
     (if n < 10 then [digit_char n] else string_of_nat (n div 10) @ [digit_char (n mod 10)])"

declare string_of_nat.simps [simp del]

definition set_header :: "string \<Rightarrow> string \<Rightarrow> (string \<times> string) list \<Rightarrow> (string \<times> string) list" where
  \<comment> \<open>\<open>res.set(k, v)\<close>\<close>
  "set_header k v hs = filter (\<lambda>h. fst h \<noteq> k) hs @ [(k, v)]"

definition GLOBAL_WINDOW_MS :: nat where "GLOBAL_WINDOW_MS = 15 * 60 * 1000"
definition UPLOAD_WINDOW_MS :: nat where "UPLOAD_WINDOW_MS = 30 * 60 * 1000"
definition QUERY_WINDOW_MS :: nat where "QUERY_WINDOW_MS = 60 * 1000"
definition GLOBAL_LIMIT :: nat where "GLOBAL_LIMIT = 200"
definition UPLOAD_LIMIT :: nat where "UPLOAD_LIMIT = 10"
definition ASK_LIMIT :: nat where "ASK_LIMIT = 20"
definition SUMMARIZE_LIMIT :: nat where "SUMMARIZE_LIMIT = 10"
definition COMPARE_LIMIT :: nat where "COMPARE_LIMIT = 10"

text \<open>
  The options handed to \<open>rateLimit\<close>. The handler gets \<open>(req, res, next, options)\<close> and
  reads \<open>options.windowMs\<close> only, so it is a function of that number and of the response.
\<close>

record limiter =
  windowMs :: nat
  max_hits :: nat
  standardHeaders :: bool
  legacyHeaders :: bool
  handler :: "nat \<Rightarrow> reply \<Rightarrow> reply"

definition ceil_seconds :: "nat \<Rightarrow> nat" where
  \<comment> \<open>\<open>Math.ceil(ms / 1000)\<close>\<close>
  "ceil_seconds ms = (ms + 999) div 1000"

definition limit_handler :: "string \<Rightarrow> nat \<Rightarrow> reply \<Rightarrow> reply" where
  "limit_handler message options_windowMs res =
     (let retryAfterSeconds = ceil_seconds options_windowMs
      in res\<lparr>status := 429,
              headers := set_header ''Retry-After'' (string_of_nat retryAfterSeconds) (headers res),
              body := obj [(''error'', Some (JStr ''Too Many Requests'')),
                           (''message'', Some (JStr message)),
                           (''retryAfter'', Some (JNum (int retryAfterSeconds)))]\<rparr>)"

definition buildLimiter :: "nat \<Rightarrow> nat \<Rightarrow> string \<Rightarrow> limiter" where
  "buildLimiter w m message =
     \<lparr>windowMs = w, max_hits = m, standardHeaders = True, legacyHeaders = False,
      handler = limit_handler message\<rparr>"

text \<open>
  \<open>makeLimiter\<close> of the rate-limited gateway passes a message and no handler, so the
  answer over the limit is the one of the library's default handler, a parameter here.
\<close>

definition RATE_LIMIT_WINDOW_MS :: nat where "RATE_LIMIT_WINDOW_MS = 15 * 60 * 1000"

definition makeLimiter :: "(string \<Rightarrow> nat \<Rightarrow> reply \<Rightarrow> reply) \<Rightarrow> nat \<Rightarrow> string \<Rightarrow> limiter" where
  "makeLimiter default_handler m msg =
     \<lparr>windowMs = RATE_LIMIT_WINDOW_MS, max_hits = m, standardHeaders = True,
      legacyHeaders = False, handler = default_handler msg\<rparr>"

definition globalLimiter :: limiter where
  "globalLimiter = buildLimiter GLOBAL_WINDOW_MS GLOBAL_LIMIT
     ''Too many requests from this IP. Please wait 15 minutes before retrying.''"

definition uploadLimiter :: limiter where
  "uploadLimiter = buildLimiter UPLOAD_WINDOW_MS UPLOAD_LIMIT
     ''Upload limit reached. You may upload up to 10 PDFs per 30-minute window.''"

definition askLimiter :: limiter where
  "askLimiter = buildLimiter QUERY_WINDOW_MS ASK_LIMIT
     ''Query limit reached. You may ask up to 20 questions per minute.''"

definition summarizeLimiter :: limiter where
  "summarizeLimiter = buildLimiter QUERY_WINDOW_MS SUMMARIZE_LIMIT
     ''Summarization limit reached. You may request up to 10 summaries per minute.''"

definition compareLimiter :: limiter where
  "compareLimiter = buildLimiter QUERY_WINDOW_MS COMPARE_LIMIT
     ''Comparison limit reached. You may request up to 10 comparisons per minute.''"

text \<open>
  Modelled from the spec: \<open>rateLimit\<close> of express-rate-limit, a dependency whose source is
  not in the repository. Sections 3 and 4.3 describe it: a count per client IP within a
  fixed window, reset when the window elapses; over the configured maximum the limiter's
  handler answers; the standard headers are sent when \<open>standardHeaders\<close> is set and the
  \<open>X-RateLimit-*\<close> ones when \<open>legacyHeaders\<close> is. Times are milliseconds.
\<close>

record counter =
  hits :: nat
  resetTime :: nat

type_synonym hit_store = "string \<rightharpoonup> counter"

definition increment :: "limiter \<Rightarrow> hit_store \<Rightarrow> string \<Rightarrow> nat \<Rightarrow> counter" where
  "increment l st ip now =
     (case st ip of
        None \<Rightarrow> \<lparr>hits = 1, resetTime = now + windowMs l\<rparr>
      | Some c \<Rightarrow>
          if resetTime c \<le> now then \<lparr>hits = 1, resetTime = now + windowMs l\<rparr>
          else c\<lparr>hits := hits c + 1\<rparr>)"

definition remaining_ms :: "counter \<Rightarrow> nat \<Rightarrow> nat" where
  "remaining_ms c now = resetTime c - now"

definition limit_headers :: "limiter \<Rightarrow> counter \<Rightarrow> nat \<Rightarrow> (string \<times> string) list" where
  "limit_headers l c now =
     (if standardHeaders l
      then [(''RateLimit-Limit'', string_of_nat (max_hits l)),
            (''RateLimit-Remaining'', string_of_nat (max_hits l - hits c)),
            (''RateLimit-Reset'', string_of_nat (ceil_seconds (remaining_ms c now)))]
      else []) @
     (if legacyHeaders l
      then [(''X-RateLimit-Limit'', string_of_nat (max_hits l)),
            (''X-RateLimit-Remaining'', string_of_nat (max_hits l - hits c)),
            (''X-RateLimit-Reset'', string_of_nat (resetTime c div 1000))]
      else [])"

datatype verdict = Next "(string \<times> string) list" | Limited reply

definition rateLimit :: "limiter \<Rightarrow> hit_store \<Rightarrow> string \<Rightarrow> nat \<Rightarrow> hit_store \<times> verdict" where
  "rateLimit l st ip now =
     (let c = increment l st ip now;
          hs = limit_headers l c now
      in (st(ip \<mapsto> c),
          if max_hits l < hits c
          then Limited (handler l (windowMs l) \<lparr>status = 200, headers = hs, body = JNull\<rparr>)
          else Next hs))"

section \<open>The frontend\<close>

text \<open>
  \<open>App\<close> of \<open>App.js\<close>: its state, the browser's \<open>localStorage\<close>, the effects that write
  to it and the handlers of Clear History, the theme switch, document selection,
  summarising and comparing. A stored value is the JSON text of a state value; the
  datatype names which one. The selected file and the in-flight flags (\<open>uploading\<close>,
  \<open>asking\<close>, ...) are left out: no effect reads them. The hook \<open>useTheme\<close> holds the same
  theme state, initialiser and effect as \<open>App\<close>.
\<close>

record pdf_doc =
  pdf_name :: string
  pdf_doc_id :: "json option"
  pdf_session_id :: string
  pdf_url :: string

record chat_msg =
  msg_role :: string
  msg_text :: "json option"

datatype stored = StoredBool bool | StoredChat "chat_msg list" | StoredPdfs "pdf_doc list"

type_synonym local_storage = "string \<rightharpoonup> stored"

record app_state =
  pdfs :: "pdf_doc list"
  selectedSessions :: "string list"
  chatHistory_ui :: "chat_msg list"
  comparisonResult :: "json option"
  question_ui :: string
  darkMode :: bool

definition THEME_STORAGE_KEY :: string where
  "THEME_STORAGE_KEY = ''pdf-qa-bot-theme''"

definition initial_darkMode :: "local_storage \<Rightarrow> bool" where
  \<comment> \<open>\<open>saved ? JSON.parse(saved) : false\<close>\<close>
  "initial_darkMode ls =
     (case ls THEME_STORAGE_KEY of
        None \<Rightarrow> False
      | Some (StoredBool b) \<Rightarrow> b
      | Some v \<Rightarrow> True)"

text \<open>
  The effects. React runs an effect after a render when one of its dependencies is a new
  value: \<open>darkMode\<close> is compared as a boolean, the arrays by identity, so every call of
  \<open>setChatHistory\<close> or \<open>setPdfs\<close> with a fresh array runs the effect that stores it.
\<close>

definition theme_effect :: "app_state \<Rightarrow> app_state \<Rightarrow> local_storage \<Rightarrow> local_storage" where
  "theme_effect old new ls =
     (if darkMode new = darkMode old then ls
      else ls(THEME_STORAGE_KEY \<mapsto> StoredBool (darkMode new)))"

definition chat_effect :: "app_state \<Rightarrow> local_storage \<Rightarrow> local_storage" where
  "chat_effect new ls = ls(''chatHistory'' \<mapsto> StoredChat (chatHistory_ui new))"

definition pdfs_effect :: "app_state \<Rightarrow> local_storage \<Rightarrow> local_storage" where
  "pdfs_effect new ls = ls(''pdfs'' \<mapsto> StoredPdfs (pdfs new))"

datatype event =
    ClearHistory
  | ToggleTheme
  | ToggleDocSelection string
  | Summarize "json option option"
  | Compare "json option option"
    \<comment> \<open>the upstream answer: \<open>None\<close> when the request failed, else the field read from it\<close>

definition clear_history_click :: "app_state \<times> local_storage \<Rightarrow> app_state \<times> local_storage" where
  "clear_history_click p =
     (case p of (st, ls) \<Rightarrow>
        let st' = st\<lparr>chatHistory_ui := [], pdfs := [], selectedSessions := []\<rparr>;
            cleared = Map.empty \<comment> \<open>\<open>localStorage.clear()\<close>\<close>
        in (st', pdfs_effect st' (chat_effect st' (theme_effect st st' cleared))))"

definition toggle_theme :: "app_state \<times> local_storage \<Rightarrow> app_state \<times> local_storage" where
  "toggle_theme p =
     (case p of (st, ls) \<Rightarrow>
        let st' = st\<lparr>darkMode := \<not> darkMode st\<rparr>
        in (st', theme_effect st st' ls))"

definition toggleDocSelection :: "string \<Rightarrow> app_state \<times> local_storage \<Rightarrow> app_state \<times> local_storage" where
  "toggleDocSelection sid p =
     (case p of (st, ls) \<Rightarrow>
        let prev = selectedSessions st;
            st' = st\<lparr>comparisonResult := None,
                     selectedSessions :=
                       (if sid \<in> set prev then filter (\<lambda>i. i \<noteq> sid) prev else prev @ [sid])\<rparr>
        in (st', theme_effect st st' ls))"

definition summarizePDF ::
  "json option option \<Rightarrow> app_state \<times> local_storage \<Rightarrow> app_state \<times> local_storage" where
  "summarizePDF r p =
     (case p of (st, ls) \<Rightarrow>
        if length (selectedSessions st) = 0 then (st, ls)
        else
          (case r of
             None \<Rightarrow> (st, ls)
           | Some summary \<Rightarrow>
               let st' = st\<lparr>chatHistory_ui :=
                             chatHistory_ui st @ [\<lparr>msg_role = ''bot'', msg_text = summary\<rparr>]\<rparr>
               in (st', chat_effect st' (theme_effect st st' ls))))"

definition compareDocuments ::
  "json option option \<Rightarrow> app_state \<times> local_storage \<Rightarrow> app_state \<times> local_storage" where
  "compareDocuments r p =
     (case p of (st, ls) \<Rightarrow>
        if length (selectedSessions st) < 2 then (st, ls)
        else
          (case r of
             None \<Rightarrow> (st, ls)
           | Some comparison \<Rightarrow>
               let st' = st\<lparr>comparisonResult := comparison\<rparr>
               in (st', theme_effect st st' ls)))"

fun handle :: "event \<Rightarrow> app_state \<times> local_storage \<Rightarrow> app_state \<times> local_storage" where
  "handle ClearHistory p = clear_history_click p"
| "handle ToggleTheme p = toggle_theme p"
| "handle (ToggleDocSelection sid) p = toggleDocSelection sid p"
| "handle (Summarize r) p = summarizePDF r p"
| "handle (Compare r) p = compareDocuments r p"

fun run :: "event list \<Rightarrow> app_state \<times> local_storage \<Rightarrow> app_state \<times> local_storage" where
  "run [] p = p"
| "run (ev # evs) p = run evs (handle ev p)"

section \<open>Concrete requests\<close>

text \<open>
  A gateway installed in \<open>/srv/app\<close> on a POSIX system, with the default upstream
  address, and the requests at which the properties below are evaluated.
\<close>

definition local_resolve :: "string \<Rightarrow> string" where
  "local_resolve p = (if prefix ''/'' p then p else ''/srv/app/'' @ p)"

definition demo_env :: "(upstream_call \<Rightarrow> axios_result) \<Rightarrow> env" where
  "demo_env r =
     \<lparr>RAG_URL = ''http://localhost:5000'', UPLOAD_DIR = ''/srv/app/uploads'',
      resolve = local_resolve, join_dirname = (\<lambda>p. ''/srv/app/'' @ p), sep = ''/'',
      rag = r, stream_fault = (\<lambda>p. None), unlink_fault = (\<lambda>p. None)\<rparr>"

definition ok_fields :: "(string \<times> json) list" where
  "ok_fields =
     [(''message'', JStr ''processed''), (''session_id'', JStr ''s1''),
      (''doc_id'', JStr ''d1''), (''answer'', JStr ''42''),
      (''comparison'', JStr ''They differ.'')]"

definition rag_ok :: "upstream_call \<Rightarrow> axios_result" where
  "rag_ok c = Resolved (JObj ok_fields)"

definition upstream_body :: json where
  "upstream_body = JObj [(''detail'', JStr ''Traceback (most recent call last): faiss index'')]"

definition upstream_500 :: js_error where
  "upstream_500 =
     \<lparr>err_code = Some ''ERR_BAD_RESPONSE'', response_data = Some upstream_body,
      err_message = ''Request failed with status code 500''\<rparr>"

definition rag_down :: "upstream_call \<Rightarrow> axios_result" where
  "rag_down c = Rejected upstream_500"


definition stored_file :: multer_file where
  "stored_file = \<lparr>file_path = ''/srv/app/uploads/17-report.pdf'', originalname = ''report.pdf''\<rparr>"

definition escaped_file :: multer_file where
  \<comment> \<open>\<open>path.join\<close> of the upload directory and the file name \<open>17-x/../../evil.pdf\<close>\<close>
  "escaped_file = \<lparr>file_path = ''/srv/app/evil.pdf'', originalname = ''x/../../evil.pdf''\<rparr>"

definition dest_file :: multer_file where
  \<comment> \<open>a file as \<open>multer({ dest: "uploads/" })\<close> of \<open>server.js\<close> stores it\<close>
  "dest_file = \<lparr>file_path = ''uploads/3f2a'', originalname = ''report.pdf''\<rparr>"


definition empty_question :: query_body where
  "empty_question = \<lparr>question = Some [], session_ids = Some []\<rparr>"

definition one_id :: query_body where
  "one_id = \<lparr>question = None, session_ids = Some [''s1'']\<rparr>"

definition two_sessions :: session_store where
  "two_sessions =
     [''cookie-a'' \<mapsto> \<lparr>currentSessionId = Some (JStr ''s0''),
                         chatHistory = Some [\<lparr>role = ''user'', content = Some (JStr ''hi'')\<rparr>]\<rparr>,
      ''cookie-b'' \<mapsto> \<lparr>currentSessionId = Some (JStr ''s2''),
                         chatHistory = Some [\<lparr>role = ''user'', content = Some (JStr ''total?'')\<rparr>]\<rparr>]"

definition busy_store :: hit_store where
  "busy_store = [''203.0.113.7'' \<mapsto> \<lparr>hits = 20, resetTime = 60000\<rparr>]"

definition dark_state :: app_state where
  "dark_state =
     \<lparr>pdfs = [\<lparr>pdf_name = ''report.pdf'', pdf_doc_id = None, pdf_session_id = ''s1'',
               pdf_url = ''blob:1''\<rparr>],
      selectedSessions = [''s1''],
      chatHistory_ui = [\<lparr>msg_role = ''user'', msg_text = Some (JStr ''What is the total?'')\<rparr>],
      comparisonResult = None, question_ui = [], darkMode = True\<rparr>"

definition dark_storage :: local_storage where
  "dark_storage =
     [THEME_STORAGE_KEY \<mapsto> StoredBool True,
      ''chatHistory'' \<mapsto> StoredChat (chatHistory_ui dark_state),
      ''pdfs'' \<mapsto> StoredPdfs (pdfs dark_state)]"

section \<open>How the primitives act on the world\<close>

lemma res_json_sel [simp]:
  "disk (res_json n b w) = disk w"
  "session (res_json n b w) = session w"
  "streams (res_json n b w) = streams w"
  "calls (res_json n b w) = calls w"
  "logs (res_json n b w) = logs w"
  by (simp_all add: res_json_def)

lemma res_json_fresh [simp]:
  "sent w = [] \<Longrightarrow> sent (res_json n b w) = [\<lparr>status = n, headers = [], body = b\<rparr>]"
  by (simp add: res_json_def)

lemma console_error_sel [simp]:
  "disk (console_error t x w) = disk w"
  "session (console_error t x w) = session w"
  "streams (console_error t x w) = streams w"
  "calls (console_error t x w) = calls w"
  "sent (console_error t x w) = sent w"
  "logs (console_error t x w) = logs w @ [\<lparr>log_level = Error, log_text = t, log_detail = x\<rparr>]"
  by (simp_all add: console_error_def)

lemma console_warn_sel [simp]:
  "disk (console_warn t w) = disk w"
  "session (console_warn t w) = session w"
  "streams (console_warn t w) = streams w"
  "calls (console_warn t w) = calls w"
  "sent (console_warn t w) = sent w"
  "logs (console_warn t w) = logs w @ [\<lparr>log_level = Warn, log_text = t, log_detail = None\<rparr>]"
  by (simp_all add: console_warn_def)

lemma begin_request_sel [simp]:
  "session (begin_request s d) = s"
  "disk (begin_request s d) = d"
  "streams (begin_request s d) = {}"
  "sent (begin_request s d) = []"
  "calls (begin_request s d) = []"
  "logs (begin_request s d) = []"
  "uncaught (begin_request s d) = None"
  by (simp_all add: begin_request_def)

lemma upload_unlink_cb_sel [simp]:
  "disk (upload_unlink_cb x w) = disk w"
  "session (upload_unlink_cb x w) = session w"
  "streams (upload_unlink_cb x w) = streams w"
  "calls (upload_unlink_cb x w) = calls w"
  "sent (upload_unlink_cb x w) = sent w"
  by (simp_all add: upload_unlink_cb_def split: option.splits)

lemma upload_finally_sel [simp]:
  "session (upload_finally e p fs w) = session w"
  "calls (upload_finally e p fs w) = calls w"
  "sent (upload_finally e p fs w) = sent w"
  by (simp_all add: upload_finally_def fs_unlink_def split: option.splits)

lemma upload_finally_disk:
  "unlink_fault e p = None \<Longrightarrow> disk (upload_finally e p fs w) = disk w - {p}"
  by (auto simp: upload_finally_def fs_unlink_def split: option.splits)

lemma upload_finally_logs:
  assumes "unlink_fault e p = Some err"
  shows "logs (upload_finally e p fs w) =
           (if err_code err \<noteq> Some ''ENOENT''
            then logs w @ [\<lparr>log_level = Warn,
                             log_text = ''[/upload] Failed to delete file: '' @ err_message err,
                             log_detail = None\<rparr>]
            else logs w)"
  using assms
  by (auto simp: upload_finally_def fs_unlink_def upload_unlink_cb_def split: option.splits)

lemma upload_try_unlink_fault [simp]:
  "upload_try (e\<lparr>unlink_fault := u\<rparr>) p w = upload_try e p w"
  by (simp add: upload_try_def axios_post_def upload_request_def split: option.splits)

lemma get_session_id_of_reply:
  "get_prop (obj [(''message'', m), (''session_id'', Some sid)]) ''session_id'' = Inr (Some sid)"
  by (cases m) (simp_all add: obj_def)

lemma upload_try_resolved:
  assumes "stream_fault e p = None"
    and "rag e (upload_request e p) = Resolved (JObj kvs)"
    and "sent w = []" and "session w = Some s"
  shows "upload_try e p w =
     (Some p, None,
      res_json 200 (obj [(''message'', map_of kvs ''message''), (''session_id'', map_of kvs ''session_id'')])
        (w\<lparr>streams := insert p (streams w), calls := calls w @ [upload_request e p],
           session := Some (s\<lparr>currentSessionId := map_of kvs ''session_id'', chatHistory := Some []\<rparr>)\<rparr>))"
  using assms
  by (simp add: upload_try_def axios_post_def bind_session_id_def upload_reply_def)

section \<open>The upload handler of the rate-limited gateway\<close>

text \<open>
  Once the handler has reached its \<open>try\<close> block (a file was stored, inside the upload
  directory), every way through it ends in the \<open>finally\<close> block: the file is gone when the
  deletion does not fail, the read stream is closed, and what the client is sent does not
  depend on how the deletion went; a deletion error other than ENOENT is logged.
\<close>

lemma upload_handler_deletes_file:
  assumes "file_path f \<noteq> []"
    and "prefix (resolve e (UPLOAD_DIR e) @ sep e) (resolve e (file_path f))
         \<or> resolve e (file_path f) = resolve e (UPLOAD_DIR e)"
    and "unlink_fault e (resolve e (file_path f)) = None"
  shows "resolve e (file_path f) \<notin> disk (upload_handler e (Some f) w)"
  using assms
  by (auto simp: upload_handler_def Let_def upload_finally_disk split: prod.splits option.splits)

lemma upload_handler_reply_ignores_unlink:
  "sent (upload_handler (e\<lparr>unlink_fault := u\<rparr>) file w) = sent (upload_handler e file w)"
  by (auto simp: upload_handler_def Let_def split: prod.splits option.splits)

lemma upload_handler_logs_unlink_failure:
  assumes "file_path f \<noteq> []"
    and "prefix (resolve e (UPLOAD_DIR e) @ sep e) (resolve e (file_path f))
         \<or> resolve e (file_path f) = resolve e (UPLOAD_DIR e)"
    and "unlink_fault e (resolve e (file_path f)) = Some err"
    and "err_code err \<noteq> Some ''ENOENT''"
  shows "last (logs (upload_handler e (Some f) w)) =
           \<lparr>log_level = Warn,
            log_text = ''[/upload] Failed to delete file: '' @ err_message err,
            log_detail = None\<rparr>"
  using assms
  by (auto simp: upload_handler_def Let_def upload_finally_logs split: prod.splits option.splits)

lemma upload_try_streams:
  "upload_try e p w = (fs, x, w') \<Longrightarrow>
     streams w' = (case fs of None \<Rightarrow> streams w | Some q \<Rightarrow> insert p (streams w))
     \<and> (fs = None \<or> fs = Some p)"
  by (auto simp: upload_try_def axios_post_def bind_session_id_def upload_reply_def
      split: option.splits axios_result.splits sum.splits)

lemma upload_finally_streams:
  "streams (upload_finally e p fs w) =
     (case fs of None \<Rightarrow> streams w | Some q \<Rightarrow> streams w - {q})"
  by (auto simp: upload_finally_def fs_unlink_def split: option.splits)

lemma upload_handler_closes_stream:
  assumes "resolve e (file_path f) \<notin> streams w"
  shows "resolve e (file_path f) \<notin> streams (upload_handler e (Some f) w)"
  using assms
  by (auto simp: upload_handler_def Let_def upload_finally_streams upload_catch_def
      dest!: upload_try_streams split: prod.splits option.splits)

lemma upload_handler_failure_is_generic:
  assumes "file_path f \<noteq> []"
    and "prefix (resolve e (UPLOAD_DIR e) @ sep e) (resolve e (file_path f))
         \<or> resolve e (file_path f) = resolve e (UPLOAD_DIR e)"
    and "stream_fault e (resolve e (file_path f)) = None"
    and "rag e (upload_request e (resolve e (file_path f))) = Rejected err"
  shows "sent (upload_handler e (Some f) (begin_request s d)) =
           [\<lparr>status = 500, headers = [],
             body = error_body ''Failed to process file. Please try again.''\<rparr>]"
  using assms
  by (auto simp: upload_handler_def Let_def upload_try_def axios_post_def upload_catch_def)

section \<open>The claims\<close>

subsection \<open>C1: the uploaded file after the request\<close>

lemma server_upload_disk: "disk (server_upload e file w) = disk w"
  by (auto simp: server_upload_def axios_post_def
      split: option.splits axios_result.splits sum.splits)

text \<open>
  C1 says that every \<open>POST /upload\<close> leaves no temporary file behind, on every exit path.
  The handler with the \<open>finally\<close> block does that (\<open>upload_handler_deletes_file\<close>,
  \<open>upload_handler_reply_ignores_unlink\<close>, \<open>upload_handler_logs_unlink_failure\<close>). The handler of \<open>server.js\<close> never touches the
  disk: after an upload that the upstream service accepted, answered with 200, the file
  that multer stored is still there.
\<close>

theorem server_upload_keeps_file:
  "map status (sent (server_upload (demo_env rag_ok) (Some dest_file)
       (begin_request None {''/srv/app/uploads/3f2a''}))) = [200]
   \<and> local_resolve (file_path dest_file) \<in>
       disk (server_upload (demo_env rag_ok) (Some dest_file)
         (begin_request None {''/srv/app/uploads/3f2a''}))"
  by (simp add: server_upload_def demo_env_def rag_ok_def ok_fields_def dest_file_def
      axios_post_def local_resolve_def obj_def)

subsection \<open>C2: /ask validates before it calls upstream\<close>

lemma ask_handler_rejects:
  assumes "no_question (question b) \<or> no_ids (session_ids b)"
  shows "map status (sent (ask_handler e b (begin_request s d))) = [400]
         \<and> calls (ask_handler e b (begin_request s d)) = []"
  using assms by (auto simp: ask_handler_def)

text \<open>
  C2 says that \<open>POST /ask\<close> with an empty or missing question, or with no session
  identifier, is answered 400 without a call to the upstream service. The handler of the
  rate-limited gateway does that (\<open>ask_handler_rejects\<close>). The handler of \<open>server.js\<close>
  forwards whatever body it gets: an empty question and an empty list go upstream, and the
  upstream answer is relayed with status 200.
\<close>

theorem server_ask_forwards_empty_question:
  "no_question (question empty_question) \<and> no_ids (session_ids empty_question)
   \<and> calls (server_ask (demo_env rag_ok) empty_question (begin_request None {})) =
       [\<lparr>url = ''http://localhost:5000/ask'',
         payload_of = Json (JObj [(''question'', JStr []), (''session_ids'', JArr [])]),
         timeout_ms = None\<rparr>]
   \<and> map status (sent (server_ask (demo_env rag_ok) empty_question (begin_request None {}))) = [200]"
  by (simp add: server_ask_def demo_env_def rag_ok_def ok_fields_def empty_question_def axios_post_def
      no_question_def no_ids_def body_json_def obj_def ids_json_def)

subsection \<open>C3: what the client sees when the upstream call fails\<close>

lemma ask_handler_failure_is_generic:
  assumes "\<not> no_question (question b)" and "\<not> no_ids (session_ids b)"
    and "rag e (ask_request e b) = Rejected err"
  shows "sent (ask_handler e b (begin_request s d)) =
           [\<lparr>status = 500, headers = [],
             body = error_body ''Failed to process question. Please try again.''\<rparr>]
         \<and> logs (ask_handler e b (begin_request s d)) =
           [\<lparr>log_level = Error, log_text = ''[/ask] Question processing failed:'',
             log_detail = caught_detail err\<rparr>]"
  using assms by (auto simp: ask_handler_def axios_post_def)

lemma summarize_handler_failure_is_generic:
  assumes "\<not> no_ids (session_ids b)"
    and "rag e (ids_request (RAG_URL e @ ''/summarize'') SUMMARIZE_TIMEOUT_MS b) = Rejected err"
  shows "sent (summarize_handler e b (begin_request s d)) =
           [\<lparr>status = 500, headers = [],
             body = error_body ''Failed to summarize documents. Please try again.''\<rparr>]
         \<and> logs (summarize_handler e b (begin_request s d)) =
           [\<lparr>log_level = Error, log_text = ''[/summarize] Summarization failed:'',
             log_detail = caught_detail err\<rparr>]"
  using assms by (auto simp: summarize_handler_def axios_post_def)

lemma compare_handler_failure_is_generic:
  assumes "\<not> fewer_than_two (session_ids b)"
    and "rag e (ids_request (RAG_URL e @ ''/compare'') COMPARE_TIMEOUT_MS b) = Rejected err"
  shows "sent (compare_handler e b (begin_request s d)) =
           [\<lparr>status = 500, headers = [],
             body = error_body ''Failed to compare documents. Please try again.''\<rparr>]
         \<and> logs (compare_handler e b (begin_request s d)) =
           [\<lparr>log_level = Error, log_text = ''[/compare] Comparison failed:'',
             log_detail = caught_detail err\<rparr>]"
  using assms by (auto simp: compare_handler_def axios_post_def)

lemma server_ask_failure_unanswered:
  assumes "rag e \<lparr>url = RAG_URL e @ ''/ask'', payload_of = Json (body_json b),
                   timeout_ms = None\<rparr> = Rejected err"
  shows "sent (server_ask e b (begin_request s d)) = []
         \<and> uncaught (server_ask e b (begin_request s d)) = Some err
         \<and> logs (server_ask e b (begin_request s d)) = []"
  using assms by (simp add: server_ask_def axios_post_def)

lemma server_upload_failure_unlogged:
  "logs (server_upload e file (begin_request s d)) = []"
  by (auto simp: server_upload_def axios_post_def
      split: option.splits axios_result.splits sum.splits)

text \<open>
  C3 says that no failure of the upstream call puts the upstream error body into the
  client's response. The four handlers of the rate-limited gateway answer with a fixed
  body and log the error under their endpoint's tag (\<open>upload_handler_failure_is_generic\<close>,
  \<open>ask_handler_failure_is_generic\<close>, \<open>summarize_handler_failure_is_generic\<close>,
  \<open>compare_handler_failure_is_generic\<close>). In \<open>server.js\<close> a failed \<open>/ask\<close> is not answered
  at all and a failed upload is not logged (\<open>server_ask_failure_unanswered\<close>,
  \<open>server_upload_failure_unlogged\<close>). The \<open>catch\<close> branch of the older upload handler
  copies \<open>err.response.data\<close> into the field \<open>details\<close> of its 500 response: a body that
  the upstream service sent with its own status 500 reaches the client as it is.
\<close>

theorem legacy_upload_relays_upstream_body:
  "response_data upstream_500 = Some upstream_body
   \<and> sent (legacy_upload_catch (demo_env rag_down) (Some ''/srv/app/uploads/3f2a'') upstream_500
        (begin_request None {''/srv/app/uploads/3f2a''})) =
       [\<lparr>status = 500, headers = [],
         body = JObj [(''error'', JStr ''PDF processing failed''), (''details'', upstream_body)]\<rparr>]"
  by (simp add: legacy_upload_catch_def demo_env_def upstream_500_def upstream_body_def
      unlinkSync_cleanup_def console_log_def caught_detail_def js_or_def obj_def Let_def)

subsection \<open>C4: /compare needs two identifiers\<close>

lemma compare_handler_rejects:
  assumes "fewer_than_two (session_ids b)"
  shows "map status (sent (compare_handler e b (begin_request s d))) = [400]
         \<and> calls (compare_handler e b (begin_request s d)) = []"
  using assms by (auto simp: compare_handler_def)

lemma compare_handler_relays:
  assumes "\<not> fewer_than_two (session_ids b)"
    and "rag e (ids_request (RAG_URL e @ ''/compare'') COMPARE_TIMEOUT_MS b) = Resolved r"
  shows "sent (compare_handler e b (begin_request s d)) =
           [\<lparr>status = 200, headers = [], body = r\<rparr>]
         \<and> calls (compare_handler e b (begin_request s d)) =
             [ids_request (RAG_URL e @ ''/compare'') COMPARE_TIMEOUT_MS b]"
  using assms by (auto simp: compare_handler_def axios_post_def)

text \<open>
  C4 says that \<open>POST /compare\<close> with fewer than two identifiers is answered 400 without an
  upstream call, and that with two or more the upstream comparison is relayed. The handler
  of the rate-limited gateway does both (\<open>compare_handler_rejects\<close>,
  \<open>compare_handler_relays\<close>). The handler of \<open>server.js\<close> has no check: a request with one
  identifier goes upstream and the comparison that comes back is relayed with status 200.
\<close>

theorem server_compare_forwards_single_id:
  "fewer_than_two (session_ids one_id)
   \<and> calls (server_compare (demo_env rag_ok) one_id (begin_request None {})) =
       [\<lparr>url = ''http://localhost:5000/compare'',
         payload_of = Json (JObj [(''session_ids'', JArr [JStr ''s1''])]),
         timeout_ms = None\<rparr>]
   \<and> sent (server_compare (demo_env rag_ok) one_id (begin_request None {})) =
       [\<lparr>status = 200, headers = [], body = JObj [(''comparison'', JStr ''They differ.'')]\<rparr>]"
  by (simp add: server_compare_def demo_env_def rag_ok_def ok_fields_def one_id_def axios_post_def
      fewer_than_two_def body_json_def obj_def ids_json_def)

subsection \<open>C5: clear-history and the other sessions\<close>

text \<open>
  C5: \<open>POST /clear-history\<close> empties the chat history of the session of the calling cookie
  and of no other: every other cookie's session in the store is what it was; the caller's
  session keeps its other fields and has an empty history; the answer is 200 with a
  message.
\<close>

theorem clear_history_touches_caller_only:
  "(other \<noteq> sid \<longrightarrow> fst (clear_history_route st sid d) other = st other)
   \<and> fst (clear_history_route st sid d) sid =
       Some ((load_session st sid)\<lparr>chatHistory := Some []\<rparr>)
   \<and> sent (snd (clear_history_route st sid d)) =
       [\<lparr>status = 200, headers = [],
         body = JObj [(''message'', JStr ''History cleared'')]\<rparr>]"
  by (simp add: clear_history_route_def with_session_def clear_history_handler_def Let_def obj_def)

theorem clear_history_touches_caller_only_witness:
  "''cookie-b'' \<noteq> ''cookie-a''
   \<and> fst (clear_history_route two_sessions ''cookie-a'' {}) ''cookie-b'' =
       Some \<lparr>currentSessionId = Some (JStr ''s2''),
             chatHistory = Some [\<lparr>role = ''user'', content = Some (JStr ''total?'')\<rparr>]\<rparr>
   \<and> fst (clear_history_route two_sessions ''cookie-a'' {}) ''cookie-a'' =
       Some \<lparr>currentSessionId = Some (JStr ''s0''), chatHistory = Some []\<rparr>"
  using clear_history_touches_caller_only [of "''cookie-b''" "''cookie-a''" two_sessions "{}"]
  by (simp add: two_sessions_def load_session_def)

subsection \<open>C6: the answer of a limiter over its limit\<close>

lemma makeLimiter_headers:
  "standardHeaders (makeLimiter dh m msg) \<and> \<not> legacyHeaders (makeLimiter dh m msg)"
  by (simp add: makeLimiter_def)

text \<open>
  C6 as stated computes \<open>Retry-After\<close> from what remains of the window. The handler that
  \<open>buildLimiter\<close> installs computes it from \<open>options.windowMs\<close>, the whole window: the 21st
  question of a client, 30 seconds into the minute, is answered with \<open>Retry-After: 60\<close>
  while 30 seconds remain.
\<close>

theorem retry_after_is_not_remaining_window:
  "snd (rateLimit askLimiter busy_store ''203.0.113.7'' 30000) =
     Limited \<lparr>status = 429,
       headers = [(''RateLimit-Limit'', ''20''),
                  (''RateLimit-Remaining'', ''0''),
                  (''RateLimit-Reset'', ''30''),
                  (''Retry-After'', ''60'')],
       body = JObj [(''error'', JStr ''Too Many Requests''),
                    (''message'',
                     JStr ''Query limit reached. You may ask up to 20 questions per minute.''),
                    (''retryAfter'', JNum 60)]\<rparr>
   \<and> ceil_seconds (remaining_ms (increment askLimiter busy_store ''203.0.113.7'' 30000) 30000)
       = 30"
  by (simp add: rateLimit_def askLimiter_def buildLimiter_def increment_def limit_headers_def
      limit_handler_def Let_def set_header_def remaining_ms_def busy_store_def
      QUERY_WINDOW_MS_def ASK_LIMIT_def ceil_seconds_def string_of_nat.simps digit_char_def
      obj_def)

text \<open>
  C6, amended: for every client IP and every limiter that \<open>buildLimiter\<close> builds, a request
  of a client that has already used the maximum in the open window is answered 429, with
  a \<open>Retry-After\<close> header that is the length of the configured window in whole seconds
  (whatever remains of the window) and a JSON body that carries the limiter's message;
  the limiter asks for the standard headers and not for the legacy ones, and the answer
  carries the \<open>RateLimit-*\<close> headers and no \<open>X-RateLimit-*\<close> header.
\<close>

theorem buildLimiter_answer_over_limit:
  assumes "st ip = Some c" and "now < resetTime c" and "m \<le> hits c"
  shows "snd (rateLimit (buildLimiter w m msg) st ip now) =
     Limited \<lparr>status = 429,
       headers = [(''RateLimit-Limit'', string_of_nat m),
                  (''RateLimit-Remaining'', string_of_nat 0),
                  (''RateLimit-Reset'', string_of_nat (ceil_seconds (resetTime c - now))),
                  (''Retry-After'', string_of_nat (ceil_seconds w))],
       body = JObj [(''error'', JStr ''Too Many Requests''),
                    (''message'', JStr msg),
                    (''retryAfter'', JNum (int (ceil_seconds w)))]\<rparr>
     \<and> standardHeaders (buildLimiter w m msg) \<and> \<not> legacyHeaders (buildLimiter w m msg)"
  using assms
  by (simp add: rateLimit_def buildLimiter_def increment_def limit_headers_def limit_handler_def
      Let_def set_header_def remaining_ms_def obj_def)

theorem buildLimiter_answer_over_limit_witness:
  "busy_store ''203.0.113.7'' = Some \<lparr>hits = 20, resetTime = 60000\<rparr>
   \<and> (30000::nat) < resetTime \<lparr>hits = 20, resetTime = 60000\<rparr>
   \<and> ASK_LIMIT \<le> hits \<lparr>hits = 20, resetTime = 60000\<rparr>
   \<and> snd (rateLimit (buildLimiter QUERY_WINDOW_MS ASK_LIMIT ''Slow down.'') busy_store
         ''203.0.113.7'' 30000) =
     Limited \<lparr>status = 429,
       headers = [(''RateLimit-Limit'', ''20''),
                  (''RateLimit-Remaining'', ''0''),
                  (''RateLimit-Reset'', ''30''),
                  (''Retry-After'', ''60'')],
       body = JObj [(''error'', JStr ''Too Many Requests''),
                    (''message'', JStr ''Slow down.''),
                    (''retryAfter'', JNum 60)]\<rparr>"
  using buildLimiter_answer_over_limit [of busy_store "''203.0.113.7''"
      "\<lparr>hits = 20, resetTime = 60000\<rparr>" 30000 ASK_LIMIT QUERY_WINDOW_MS "''Slow down.''"]
  by (simp add: busy_store_def ASK_LIMIT_def QUERY_WINDOW_MS_def ceil_seconds_def
      string_of_nat.simps digit_char_def)

subsection \<open>C7: a stored file outside the upload directory\<close>

text \<open>
  C7: when the path of the stored file resolves outside the upload directory (it is
  neither the directory nor a path that continues the directory after a separator), the
  upload handler of the rate-limited gateway answers 400, makes no upstream call and so
  forwards nothing of the file.
\<close>

theorem upload_rejects_path_outside_upload_dir:
  assumes "file_path f \<noteq> []"
    and "\<not> prefix (resolve e (UPLOAD_DIR e) @ sep e) (resolve e (file_path f))"
    and "resolve e (file_path f) \<noteq> resolve e (UPLOAD_DIR e)"
  shows "sent (upload_handler e (Some f) (begin_request s d)) =
           [\<lparr>status = 400, headers = [], body = error_body ''Invalid file path.''\<rparr>]
         \<and> calls (upload_handler e (Some f) (begin_request s d)) = []"
  using assms by (simp add: upload_handler_def Let_def)

theorem upload_rejects_path_outside_upload_dir_witness:
  "file_path escaped_file \<noteq> []
   \<and> \<not> prefix (local_resolve ''/srv/app/uploads'' @ ''/'') (local_resolve (file_path escaped_file))
   \<and> local_resolve (file_path escaped_file) \<noteq> local_resolve ''/srv/app/uploads''
   \<and> map status (sent (upload_handler (demo_env rag_ok) (Some escaped_file)
        (begin_request None {''/srv/app/evil.pdf''}))) = [400]
   \<and> calls (upload_handler (demo_env rag_ok) (Some escaped_file)
        (begin_request None {''/srv/app/evil.pdf''})) = []"
  using upload_rejects_path_outside_upload_dir [of escaped_file "demo_env rag_ok" None
      "{''/srv/app/evil.pdf''}"]
  by (simp add: demo_env_def escaped_file_def local_resolve_def)

subsection \<open>C8: a successful upload binds the session\<close>

text \<open>
  C8: when the upstream call of an upload succeeds and issues a \<open>session_id\<close>, the session
  that the store keeps for the caller's cookie holds that identifier and an empty chat
  history afterwards, and the body of the 200 response carries the identifier.
\<close>

theorem upload_success_binds_session:
  assumes "file_path f \<noteq> []"
    and "prefix (resolve e (UPLOAD_DIR e) @ sep e) (resolve e (file_path f))
         \<or> resolve e (file_path f) = resolve e (UPLOAD_DIR e)"
    and "stream_fault e (resolve e (file_path f)) = None"
    and "rag e (upload_request e (resolve e (file_path f))) = Resolved (JObj kvs)"
    and "map_of kvs ''session_id'' = Some sid"
  shows "fst (upload_route e (Some f) st cookie d) cookie =
           Some ((load_session st cookie)\<lparr>currentSessionId := Some sid, chatHistory := Some []\<rparr>)
         \<and> sent (snd (upload_route e (Some f) st cookie d)) =
           [\<lparr>status = 200, headers = [],
             body = obj [(''message'', map_of kvs ''message''), (''session_id'', Some sid)]\<rparr>]
         \<and> get_prop (obj [(''message'', map_of kvs ''message''), (''session_id'', Some sid)])
              ''session_id'' = Inr (Some sid)"
proof -
  let ?p = "resolve e (file_path f)"
  let ?w = "begin_request (Some (load_session st cookie)) d"
  have "upload_try e ?p ?w =
     (Some ?p, None,
      res_json 200 (obj [(''message'', map_of kvs ''message''), (''session_id'', Some sid)])
        (?w\<lparr>streams := insert ?p (streams ?w), calls := calls ?w @ [upload_request e ?p],
           session := Some ((load_session st cookie)
                        \<lparr>currentSessionId := Some sid, chatHistory := Some []\<rparr>)\<rparr>))"
    using upload_try_resolved [OF assms(3) assms(4), of ?w "load_session st cookie"] assms(5)
    by simp
  with assms(1,2) show ?thesis
    by (auto simp: upload_route_def with_session_def upload_handler_def Let_def
        get_session_id_of_reply)
qed

theorem upload_success_binds_session_witness:
  "fst (upload_route (demo_env rag_ok) (Some stored_file) two_sessions ''cookie-a'' 
          {''/srv/app/uploads/17-report.pdf''}) ''cookie-a'' =
     Some \<lparr>currentSessionId = Some (JStr ''s1''), chatHistory = Some []\<rparr>
   \<and> sent (snd (upload_route (demo_env rag_ok) (Some stored_file) two_sessions ''cookie-a''
          {''/srv/app/uploads/17-report.pdf''})) =
     [\<lparr>status = 200, headers = [],
       body = JObj [(''message'', JStr ''processed''), (''session_id'', JStr ''s1'')]\<rparr>]"
  using upload_success_binds_session [of stored_file "demo_env rag_ok"
      ok_fields "JStr ''s1''" two_sessions "''cookie-a''"
      "{''/srv/app/uploads/17-report.pdf''}"]
  by (simp add: demo_env_def stored_file_def local_resolve_def rag_ok_def ok_fields_def
      two_sessions_def load_session_def obj_def)

subsection \<open>C9: what /ask appends to the session history\<close>





lemma history_of_session: "session w1 = session w \<Longrightarrow> history_of w1 = history_of w"
  by (simp add: history_of_def)





subsection \<open>C10: Clear History and the stored theme\<close>

lemma handle_keeps_theme:
  assumes "ev \<noteq> ClearHistory" and "ev \<noteq> ToggleTheme"
  shows "snd (handle ev p) THEME_STORAGE_KEY = snd p THEME_STORAGE_KEY"
  using assms
  by (cases ev; cases p)
     (auto simp: toggleDocSelection_def summarizePDF_def compareDocuments_def theme_effect_def
        chat_effect_def THEME_STORAGE_KEY_def Let_def split: option.splits)

lemma run_keeps_theme:
  assumes "ClearHistory \<notin> set evs" and "ToggleTheme \<notin> set evs"
  shows "snd (run evs p) THEME_STORAGE_KEY = snd p THEME_STORAGE_KEY"
  using assms by (induction evs arbitrary: p) (auto simp: handle_keeps_theme)

text \<open>
  C10 says that nothing but the theme switch changes the stored theme preference, and
  names Clear History among the operations that leave it alone. Selecting documents,
  summarising and comparing do leave it alone (\<open>run_keeps_theme\<close>). Clear History calls
  \<open>localStorage.clear()\<close>, which removes the theme key with the rest, and the effect that
  writes the theme does not run again because \<open>darkMode\<close> has not changed: with dark mode
  on and stored, one click on Clear History leaves the page dark and the storage without
  a theme, and the next load starts light.
\<close>

theorem clear_history_erases_theme:
  "dark_storage THEME_STORAGE_KEY = Some (StoredBool True)
   \<and> darkMode (fst (run [ClearHistory] (dark_state, dark_storage))) = True
   \<and> snd (run [ClearHistory] (dark_state, dark_storage)) THEME_STORAGE_KEY = None
   \<and> initial_darkMode (snd (run [ClearHistory] (dark_state, dark_storage))) = False"
  by (simp add: dark_storage_def dark_state_def clear_history_click_def theme_effect_def
      chat_effect_def pdfs_effect_def THEME_STORAGE_KEY_def initial_darkMode_def Let_def)

end
